theory Spec2Isabelle
  imports Main
begin

section \<open>The Orc8rBase charm library (orc8r\_base.py)\<close>

text \<open>
  The library is a set of event handlers run by the operator framework. Everything the
  handlers read or change belongs to the host: the relations of the model, the workload
  container and its Pebble plan, the unit's status, the leadership flag. The embedding
  keeps the host in a record \<open>world\<close>, threads it through every call, and records
  each call a handler makes to the host, in order, in the field \<open>calls\<close>.
  An exception is a value: every operation returns \<open>Inl e\<close> when it raises
  \<open>e\<close> and \<open>Inr x\<close> when it returns \<open>x\<close>.

  The exceptions of the model are the AttributeError of \<open>None.units\<close>, the
  StopIteration of \<open>next\<close> on no unit, the KeyError of a missing bag or key, the
  ModelError of \<open>get_service\<close> for a service the host does not know, and the
  ModelError (a TooManyRelatedAppsError) of \<open>get_relation\<close> on an endpoint that holds
  several relations. A lost connection in the middle of a handler is outside the model.
\<close>

subsection \<open>Data\<close>

type_synonym databag = "string \<rightharpoonup> string"

datatype status =
    ActiveStatus
  | MaintenanceStatus string
  | WaitingStatus string
  | BlockedStatus string

datatype error = AttributeError | KeyError | StopIteration | ModelError

text \<open>One entry of the \<open>services\<close> dict of a Pebble layer or plan.\<close>

record service =
  override :: string
  summary :: string
  startup :: string
  command :: string
  environment :: databag

record layer =
  layer_summary :: string
  layer_description :: string
  services :: "string \<rightharpoonup> service"

text \<open>
  A relation as a handler sees it: its id, the counterpart units in the order in which
  iterating over \<open>rel.units\<close> yields them, and the data bags of the counterpart
  units. The bag of the unit itself, the only one a handler writes, is kept in the world
  under the relation's id.
\<close>

record relation =
  rel_id :: nat
  units :: "string list"
  data :: "string \<rightharpoonup> databag"

datatype event =
    PebbleReadyEvent
  | UpgradeCharmEvent
  | RelationJoinedEvent relation

text \<open>The calls a handler makes to the host.\<close>

datatype call =
    Get_relation string
  | Relation_units nat
  | Relation_data_get nat string string
  | Relation_data_update nat string string
  | Is_leader
  | Get_relations string
  | Can_connect
  | Get_plan
  | Add_layer string layer bool
  | Restart string
  | Get_service string
  | Set_status status
  | Defer event

text \<open>
  The host. \<open>model_relations\<close> answers \<open>model.relations[name]\<close>, the relations
  held on an endpoint; \<open>model.get_relation(name)\<close> is answered from the same list.
  \<open>unit_data\<close> holds the unit's own data bag of each relation, \<open>reachable\<close> is the
  answer of \<open>container.can_connect()\<close> and \<open>plan\<close> the services of the
  container's plan. Pebble reports a service by name exactly when the plan holds it.
\<close>

record world =
  leader :: bool
  model_name :: string
  unit_status :: status
  model_relations :: "string \<Rightarrow> relation list"
  unit_data :: "nat \<Rightarrow> databag"
  reachable :: bool
  plan :: "string \<rightharpoonup> service"
  calls :: "call list"

text \<open>The attributes of an \<open>Orc8rBase\<close> object.\<close>

record orc8r_base =
  charm_meta_name :: string
  container_name :: string
  service_name :: string
  startup_command :: string
  required_relations :: "string list"
  additional_environment_variables :: databag

text \<open>
  The constructor: both names are the charm's name, and a missing list of relations or
  map of variables is the empty one.
\<close>

definition Orc8rBase :: "string \<Rightarrow> string \<Rightarrow> string list option \<Rightarrow> databag option \<Rightarrow> orc8r_base" where
  "Orc8rBase name startup_cmd required additional =
     \<lparr> charm_meta_name = name,
       container_name = name,
       service_name = name,
       startup_command = startup_cmd,
       required_relations = (case required of None \<Rightarrow> [] | Some rs \<Rightarrow> rs),
       additional_environment_variables = (case additional of None \<Rightarrow> Map.empty | Some m \<Rightarrow> m) \<rparr>"

subsection \<open>Sequencing and exceptions\<close>

type_synonym 'a action = "world \<Rightarrow> (error + 'a) \<times> world"

definition ret :: "'a \<Rightarrow> 'a action" where
  "ret x w = (Inr x, w)"

definition throw :: "error \<Rightarrow> 'a action" where
  "throw e w = (Inl e, w)"

definition seq :: "'a action \<Rightarrow> ('a \<Rightarrow> 'b action) \<Rightarrow> 'b action" where
  "seq m f w = (case m w of (Inl e, w') \<Rightarrow> (Inl e, w') | (Inr x, w') \<Rightarrow> f x w')"

definition read :: "(world \<Rightarrow> 'a) \<Rightarrow> 'a action" where
  "read f w = (Inr (f w), w)"

text \<open>\<open>try: m except es: h\<close>: an exception outside \<open>es\<close> propagates.\<close>

definition try_except :: "'a action \<Rightarrow> error list \<Rightarrow> 'a action \<Rightarrow> 'a action" where
  "try_except m es h w =
     (case m w of
        (Inl e, w') \<Rightarrow> if e \<in> set es then h w' else (Inl e, w')
      | (Inr x, w') \<Rightarrow> (Inr x, w'))"

subsection \<open>The host's operations\<close>

definition record_call :: "call \<Rightarrow> world \<Rightarrow> world" where
  "record_call c w = w\<lparr>calls := calls w @ [c]\<rparr>"

text \<open>
  \<open>model.get_relation(name)\<close>: \<open>None\<close> when the endpoint holds no relation, the
  relation when it holds one, and a TooManyRelatedAppsError, which is a ModelError, when it
  holds several.
\<close>

definition get_relation :: "string \<Rightarrow> relation option action" where
  "get_relation name w =
     (let w' = record_call (Get_relation name) w in
      case model_relations w name of
        [] \<Rightarrow> (Inr None, w')
      | [rel] \<Rightarrow> (Inr (Some rel), w')
      | _ \<Rightarrow> (Inl ModelError, w'))"

definition rel_units :: "relation \<Rightarrow> string list action" where
  "rel_units rel w = (Inr (units rel), record_call (Relation_units (rel_id rel)) w)"

text \<open>\<open>rel.data[unit][key]\<close>: a KeyError when the unit has no bag or the bag no such key.\<close>

definition rel_data_get :: "relation \<Rightarrow> string \<Rightarrow> string \<Rightarrow> string action" where
  "rel_data_get rel u key w =
     (let w' = record_call (Relation_data_get (rel_id rel) u key) w in
      case data rel u of
        None \<Rightarrow> (Inl KeyError, w')
      | Some bag \<Rightarrow> (case bag key of None \<Rightarrow> (Inl KeyError, w') | Some v \<Rightarrow> (Inr v, w')))"

text \<open>\<open>relation.data[self.charm.unit].update({key: v})\<close>.\<close>

definition rel_data_update :: "relation \<Rightarrow> string \<Rightarrow> string \<Rightarrow> unit action" where
  "rel_data_update rel key v w =
     (Inr (),
      record_call (Relation_data_update (rel_id rel) key v)
        (w\<lparr>unit_data := (unit_data w)(rel_id rel := (unit_data w (rel_id rel))(key \<mapsto> v))\<rparr>))"

definition is_leader :: "bool action" where
  "is_leader w = (Inr (leader w), record_call Is_leader w)"

definition get_relations :: "string \<Rightarrow> relation list action" where
  "get_relations name w = (Inr (model_relations w name), record_call (Get_relations name) w)"

definition can_connect :: "bool action" where
  "can_connect w = (Inr (reachable w), record_call Can_connect w)"

definition get_plan :: "(string \<rightharpoonup> service) action" where
  "get_plan w = (Inr (plan w), record_call Get_plan w)"

text \<open>
  \<open>add_layer(label, layer, combine=True)\<close>, the only mode the library uses: the
  services of the layer replace the plan's services of the same names, the others stay.
\<close>

definition add_layer :: "string \<Rightarrow> layer \<Rightarrow> unit action" where
  "add_layer label l w =
     (Inr (), record_call (Add_layer label l True) (w\<lparr>plan := plan w ++ services l\<rparr>))"

definition restart :: "string \<Rightarrow> unit action" where
  "restart name w = (Inr (), record_call (Restart name) w)"

text \<open>\<open>get_service(name)\<close>: a ModelError when the host does not know the service.\<close>

definition get_service :: "string \<Rightarrow> service action" where
  "get_service name w =
     (let w' = record_call (Get_service name) w in
      case plan w name of None \<Rightarrow> (Inl ModelError, w') | Some s \<Rightarrow> (Inr s, w'))"

definition set_status :: "status \<Rightarrow> unit action" where
  "set_status s w = (Inr (), record_call (Set_status s) (w\<lparr>unit_status := s\<rparr>))"

definition event_defer :: "event \<Rightarrow> unit action" where
  "event_defer ev w = (Inr (), record_call (Defer ev) w)"

subsection \<open>Strings\<close>

text \<open>\<open>sep.join(xs)\<close> and \<open>str(b)\<close> of a bool.\<close>

fun join :: "string \<Rightarrow> string list \<Rightarrow> string" where
  "join sep [] = []"
| "join sep [x] = x"
| "join sep (x # y # ys) = x @ sep @ join sep (y # ys)"

definition str_bool :: "bool \<Rightarrow> string" where
  "str_bool b = (if b then ''True'' else ''False'')"

subsection \<open>The library\<close>

text \<open>
  The methods and properties of \<open>Orc8rBase\<close>, under their names without the leading
  underscore: \<open>namespace\<close>, \<open>environment_variables\<close> and \<open>pebble_layer\<close>
  read the world and call nothing; \<open>relation_active\<close> is the \<open>try\<close> around
  \<open>relation_active_body\<close>; \<open>relations_created\<close> and \<open>relations_ready\<close>
  build their lists with \<open>not_created\<close> and \<open>not_active\<close>;
  \<open>configure_workload\<close> is the handler of pebble-ready and upgrade-charm,
  \<open>on_relation_joined\<close> the handler of relation-joined, given the event's relation.
  Two dicts are equal when they hold the same values under the same keys, so
  \<open>plan.services != pebble_layer.services\<close> is the inequality of two maps.
\<close>

definition namespace :: "world \<Rightarrow> string" where
  "namespace w = model_name w"

definition environment_variables :: "orc8r_base \<Rightarrow> world \<Rightarrow> databag" where
  "environment_variables self w =
     (let environment_variables = Map.empty;
          default_environment_variables =
            [''SERVICE_HOSTNAME'' \<mapsto> container_name self,
             ''SERVICE_REGISTRY_MODE'' \<mapsto> ''k8s'',
             ''SERVICE_REGISTRY_NAMESPACE'' \<mapsto> namespace w];
          environment_variables = environment_variables ++ additional_environment_variables self;
          environment_variables = environment_variables ++ default_environment_variables
      in environment_variables)"

definition pebble_layer :: "orc8r_base \<Rightarrow> world \<Rightarrow> layer" where
  "pebble_layer self w =
     \<lparr> layer_summary = service_name self @ '' layer'',
       layer_description = ''pebble config layer for '' @ service_name self,
       services =
         [service_name self \<mapsto>
            \<lparr> override = ''replace'',
              summary = service_name self,
              startup = ''enabled'',
              command = startup_command self,
              environment = environment_variables self w \<rparr>] \<rparr>"

definition relation_active_body :: "string \<Rightarrow> bool action" where
  "relation_active_body relation_name =
     seq (get_relation relation_name) (\<lambda>rel.
       case rel of
         None \<Rightarrow> throw AttributeError
       | Some r \<Rightarrow>
           seq (rel_units r) (\<lambda>us.
             case us of
               [] \<Rightarrow> throw StopIteration
             | u # _ \<Rightarrow> seq (rel_data_get r u ''active'') (\<lambda>v. ret (v = ''True''))))"

definition relation_active :: "string \<Rightarrow> bool action" where
  "relation_active relation_name =
     try_except (relation_active_body relation_name)
       [AttributeError, KeyError, StopIteration] (ret False)"

definition service_is_running :: "orc8r_base \<Rightarrow> bool action" where
  "service_is_running self =
     seq can_connect (\<lambda>c.
       if c then
         try_except (seq (get_service (service_name self)) (\<lambda>_. ret True))
           [ModelError] (ret False)
       else ret False)"

definition update_relation_active_status :: "relation \<Rightarrow> bool \<Rightarrow> unit action" where
  "update_relation_active_status rel is_active = rel_data_update rel ''active'' (str_bool is_active)"

text \<open>The loop of \<open>_update_relations\<close>: the probe runs once for each relation.\<close>

primrec update_each :: "orc8r_base \<Rightarrow> relation list \<Rightarrow> unit action" where
  "update_each self [] = ret ()"
| "update_each self (rel # rels) =
     seq (service_is_running self) (\<lambda>is_active.
       seq (update_relation_active_status rel is_active) (\<lambda>_. update_each self rels))"

definition update_relations :: "orc8r_base \<Rightarrow> unit action" where
  "update_relations self =
     seq is_leader (\<lambda>l.
       if \<not> l then ret ()
       else seq (get_relations (charm_meta_name self)) (\<lambda>rels. update_each self rels))"

text \<open>The two list comprehensions over \<open>required_relations\<close>.\<close>

primrec not_created :: "string list \<Rightarrow> string list action" where
  "not_created [] = ret []"
| "not_created (relation_name # rest) =
     seq (get_relation relation_name) (\<lambda>rel.
       seq (not_created rest) (\<lambda>ms. ret (if rel = None then relation_name # ms else ms)))"

primrec not_active :: "string list \<Rightarrow> string list action" where
  "not_active [] = ret []"
| "not_active (relation_name # rest) =
     seq (relation_active relation_name) (\<lambda>a.
       seq (not_active rest) (\<lambda>ms. ret (if \<not> a then relation_name # ms else ms)))"

definition relations_created :: "orc8r_base \<Rightarrow> bool action" where
  "relations_created self =
     seq (not_created (required_relations self)) (\<lambda>missing_relations.
       if missing_relations \<noteq> [] then
         seq (set_status (BlockedStatus
                (''Waiting for relation(s) to be created: '' @ join '', '' missing_relations)))
             (\<lambda>_. ret False)
       else ret True)"

definition relations_ready :: "orc8r_base \<Rightarrow> bool action" where
  "relations_ready self =
     seq (not_active (required_relations self)) (\<lambda>missing_relations.
       if missing_relations \<noteq> [] then
         seq (set_status (WaitingStatus
                (''Waiting for relation(s) to be ready: '' @ join '', '' missing_relations)))
             (\<lambda>_. ret False)
       else ret True)"

definition configure_charm :: "orc8r_base \<Rightarrow> event \<Rightarrow> unit action" where
  "configure_charm self ev =
     seq can_connect (\<lambda>c.
       if c then
         seq (set_status (MaintenanceStatus ''Configuring pod'')) (\<lambda>_.
         seq (read (pebble_layer self)) (\<lambda>pebble_layer.
         seq get_plan (\<lambda>plan_services.
         seq (if plan_services \<noteq> services pebble_layer then
                seq (add_layer (container_name self) pebble_layer) (\<lambda>_.
                seq (restart (service_name self)) (\<lambda>_.
                update_relations self))
              else ret ()) (\<lambda>_.
         set_status ActiveStatus))))
       else
         seq (set_status (WaitingStatus ''Waiting for container to be ready...'')) (\<lambda>_.
         event_defer ev))"

definition configure_workload :: "orc8r_base \<Rightarrow> event \<Rightarrow> unit action" where
  "configure_workload self ev =
     seq (relations_created self) (\<lambda>created.
       if \<not> created then event_defer ev
       else
         seq (relations_ready self) (\<lambda>ready.
           if \<not> ready then event_defer ev
           else configure_charm self ev))"

definition on_relation_joined :: "orc8r_base \<Rightarrow> relation \<Rightarrow> unit action" where
  "on_relation_joined self rel =
     seq is_leader (\<lambda>l.
       if \<not> l then ret ()
       else
         seq (service_is_running self) (\<lambda>is_active.
         seq (update_relation_active_status rel is_active) (\<lambda>_.
         seq (service_is_running self) (\<lambda>running.
           if \<not> running then event_defer (RelationJoinedEvent rel) else ret ()))))"

subsection \<open>Describing a run of a handler\<close>

text \<open>
  The calls a handler added to the record, and those among them that change the host
  (a status, a layer, a restart, a write into a data bag, a deferral of the event).
\<close>

definition new_calls :: "world \<Rightarrow> world \<Rightarrow> call list" where
  "new_calls w w' = drop (length (calls w)) (calls w')"

fun is_query :: "call \<Rightarrow> bool" where
  "is_query (Relation_data_update _ _ _) = False"
| "is_query (Add_layer _ _ _) = False"
| "is_query (Restart _) = False"
| "is_query (Set_status _) = False"
| "is_query (Defer _) = False"
| "is_query _ = True"

definition effects :: "call list \<Rightarrow> call list" where
  "effects cs = filter (\<lambda>c. \<not> is_query c) cs"

fun is_add_layer :: "call \<Rightarrow> bool" where
  "is_add_layer (Add_layer _ _ _) = True"
| "is_add_layer _ = False"

fun is_restart :: "call \<Rightarrow> bool" where
  "is_restart (Restart _) = True"
| "is_restart _ = False"

fun is_write :: "call \<Rightarrow> bool" where
  "is_write (Relation_data_update _ _ _) = True"
| "is_write _ = False"

fun is_defer :: "call \<Rightarrow> bool" where
  "is_defer (Defer _) = True"
| "is_defer _ = False"

text \<open>
  An endpoint holds several relations, or none, or one, which is then the relation of the
  endpoint. With several, \<open>get_relation\<close> raises; \<open>asked\<close> are the names
  \<open>get_relation\<close> is called with when it is called with the names of a list in turn,
  up to the first call that raises.
\<close>

definition several :: "world \<Rightarrow> string \<Rightarrow> bool" where
  "several w name = (1 < length (model_relations w name))"

definition model_relation :: "world \<Rightarrow> string \<Rightarrow> relation option" where
  "model_relation w name = (case model_relations w name of [rel] \<Rightarrow> Some rel | _ \<Rightarrow> None)"

fun asked :: "world \<Rightarrow> string list \<Rightarrow> string list" where
  "asked w [] = []"
| "asked w (name # names) = name # (if several w name then [] else asked w names)"

text \<open>
  A required relation is ready in a world when the first counterpart unit of the relation
  has \<open>"active"\<close> set to \<open>"True"\<close> in its data bag; \<open>ready_calls\<close> are the
  calls the check of one relation makes.
\<close>

definition ready :: "world \<Rightarrow> string \<Rightarrow> bool" where
  "ready w name =
     (case model_relation w name of
        None \<Rightarrow> False
      | Some r \<Rightarrow>
          (case units r of
             [] \<Rightarrow> False
           | u # _ \<Rightarrow> (case data r u of None \<Rightarrow> False | Some bag \<Rightarrow> bag ''active'' = Some ''True'')))"

definition ready_calls :: "world \<Rightarrow> string \<Rightarrow> call list" where
  "ready_calls w name =
     Get_relation name #
     (case model_relation w name of
        None \<Rightarrow> []
      | Some r \<Rightarrow>
          Relation_units (rel_id r) #
          (case units r of [] \<Rightarrow> [] | u # _ \<Rightarrow> [Relation_data_get (rel_id r) u ''active'']))"

text \<open>The calls of the two checks of \<open>_configure_workload\<close> when both run to their end.\<close>

definition checks :: "orc8r_base \<Rightarrow> world \<Rightarrow> call list" where
  "checks self w =
     map Get_relation (required_relations self) @ concat (map (ready_calls w) (required_relations self))"

definition created_message :: "string list \<Rightarrow> string" where
  "created_message ms = ''Waiting for relation(s) to be created: '' @ join '', '' ms"

definition ready_message :: "string list \<Rightarrow> string" where
  "ready_message ms = ''Waiting for relation(s) to be ready: '' @ join '', '' ms"

text \<open>The value of the probe \<open>_service_is_running\<close> in a world, and the calls it makes.\<close>

definition running :: "orc8r_base \<Rightarrow> world \<Rightarrow> bool" where
  "running self w = (reachable w \<and> plan w (service_name self) \<noteq> None)"

definition running_calls :: "orc8r_base \<Rightarrow> world \<Rightarrow> call list" where
  "running_calls self w = Can_connect # (if reachable w then [Get_service (service_name self)] else [])"

text \<open>
  The unit's data bags after \<open>"active"\<close> is set to \<open>v\<close> in the bag of each relation
  of a list, and the calls of that loop on a reachable container that holds the service.
\<close>

definition write_active :: "string \<Rightarrow> relation list \<Rightarrow> (nat \<Rightarrow> databag) \<Rightarrow> (nat \<Rightarrow> databag)" where
  "write_active v rels d = foldl (\<lambda>d r. d(rel_id r := (d (rel_id r))(''active'' \<mapsto> v))) d rels"

definition writes :: "orc8r_base \<Rightarrow> string \<Rightarrow> relation list \<Rightarrow> call list" where
  "writes self v rels =
     concat (map (\<lambda>r. [Can_connect, Get_service (service_name self),
                          Relation_data_update (rel_id r) ''active'' v]) rels)"

subsection \<open>A charm and its worlds, as in the tests\<close>

definition dummy_charm :: orc8r_base where
  "dummy_charm =
     Orc8rBase ''magma-orc8r-dummy'' ''/var/opt/magma/bin/dummy -logtostderr=true -v=0''
       (Some [''magma-orc8r-whatever'', ''db''])
       (Some [''SERVICE_HOSTNAME'' \<mapsto> ''elsewhere'', ''LOG_LEVEL'' \<mapsto> ''debug''])"

definition bare_charm :: orc8r_base where
  "bare_charm = Orc8rBase ''magma-orc8r-dummy'' ''/var/opt/magma/bin/dummy'' None None"

definition remote_relation :: "nat \<Rightarrow> string \<Rightarrow> relation" where
  "remote_relation i v =
     \<lparr> rel_id = i, units = [''remote-app/0'', ''remote-app/1''],
       data = [''remote-app/0'' \<mapsto> [''active'' \<mapsto> v], ''remote-app/1'' \<mapsto> Map.empty] \<rparr>"

definition requirer_relation :: "nat \<Rightarrow> relation" where
  "requirer_relation i = \<lparr> rel_id = i, units = [''whatever/0''], data = Map.empty \<rparr>"

text \<open>
  A world with nothing related and an unreachable container, and worlds made from it.
\<close>

definition fresh_world :: world where
  "fresh_world =
     \<lparr> leader = False, model_name = ''banana'', unit_status = MaintenanceStatus [],
       model_relations = (\<lambda>_. []), unit_data = (\<lambda>_. Map.empty),
       reachable = False, plan = Map.empty, calls = [] \<rparr>"

definition related_world :: "string \<Rightarrow> string \<Rightarrow> world" where
  "related_world v1 v2 =
     fresh_world\<lparr>model_relations :=
       (\<lambda>_. [])(''magma-orc8r-whatever'' := [remote_relation 1 v1],
                ''db'' := [remote_relation 2 v2],
                ''magma-orc8r-dummy'' := [requirer_relation 3, requirer_relation 4])\<rparr>"

text \<open>A world in which two applications are related on the endpoint \<open>db\<close>.\<close>

definition crowded_world :: world where
  "crowded_world =
     fresh_world\<lparr>model_relations :=
       (\<lambda>_. [])(''db'' := [remote_relation 2 ''True'', remote_relation 5 ''True''])\<rparr>"

definition other_service :: service where
  "other_service =
     \<lparr> override = ''replace'', summary = ''other'', startup = ''enabled'',
       command = ''/bin/other'', environment = Map.empty \<rparr>"

section \<open>Properties\<close>

subsection \<open>What a step leaves alone, and the recorded calls\<close>

lemma model_relation_upd:
  "model_relation (w\<lparr>calls := cs\<rparr>) = model_relation w"
  "model_relation (w\<lparr>unit_status := s\<rparr>) = model_relation w"
  "model_relation (w\<lparr>unit_data := d\<rparr>) = model_relation w"
  "model_relation (w\<lparr>plan := p\<rparr>) = model_relation w"
  "several (w\<lparr>calls := cs\<rparr>) = several w"
  "several (w\<lparr>unit_status := s\<rparr>) = several w"
  "several (w\<lparr>unit_data := d\<rparr>) = several w"
  "several (w\<lparr>plan := p\<rparr>) = several w"
  by (simp_all add: model_relation_def several_def fun_eq_iff)

lemma asked_cong: "several w' = several w \<Longrightarrow> asked w' rs = asked w rs"
  by (induction rs) simp_all

lemma asked_upd:
  "asked (w\<lparr>calls := cs\<rparr>) rs = asked w rs"
  "asked (w\<lparr>unit_status := s\<rparr>) rs = asked w rs"
  by (rule asked_cong, simp add: model_relation_upd)+

lemma asked_all: "\<forall>n\<in>set rs. \<not> several w n \<Longrightarrow> asked w rs = rs"
  by (induction rs) simp_all

lemma created_once: "model_relation w n \<noteq> None \<Longrightarrow> \<not> several w n"
  by (auto simp: model_relation_def several_def split: list.splits)

lemma ready_calls_upd:
  "ready (w\<lparr>calls := cs\<rparr>) = ready w"
  "ready_calls (w\<lparr>calls := cs\<rparr>) = ready_calls w"
  by (simp_all add: ready_def ready_calls_def fun_eq_iff model_relation_upd)

lemma ready_upd:
  "ready (w\<lparr>unit_status := s\<rparr>) = ready w"
  "ready (w\<lparr>unit_data := d\<rparr>) = ready w"
  "ready (w\<lparr>plan := p\<rparr>) = ready w"
  "ready_calls (w\<lparr>unit_status := s\<rparr>) = ready_calls w"
  "ready_calls (w\<lparr>unit_data := d\<rparr>) = ready_calls w"
  "ready_calls (w\<lparr>plan := p\<rparr>) = ready_calls w"
  by (simp_all add: ready_def ready_calls_def fun_eq_iff model_relation_upd)

lemma running_upd:
  "running self (w\<lparr>calls := cs\<rparr>) = running self w"
  "running self (w\<lparr>unit_data := d\<rparr>) = running self w"
  "running self (w\<lparr>unit_status := s\<rparr>) = running self w"
  "running_calls self (w\<lparr>calls := cs\<rparr>) = running_calls self w"
  "running_calls self (w\<lparr>unit_data := d\<rparr>) = running_calls self w"
  "running_calls self (w\<lparr>unit_status := s\<rparr>) = running_calls self w"
  by (simp_all add: running_def running_calls_def)

lemma pebble_layer_upd:
  "pebble_layer self (w\<lparr>calls := cs\<rparr>) = pebble_layer self w"
  "pebble_layer self (w\<lparr>unit_status := s\<rparr>) = pebble_layer self w"
  "pebble_layer self (w\<lparr>unit_data := d\<rparr>) = pebble_layer self w"
  "pebble_layer self (w\<lparr>plan := p\<rparr>) = pebble_layer self w"
  by (simp_all add: pebble_layer_def environment_variables_def namespace_def)

lemma layer_has_service:
  "services (pebble_layer self w) (service_name self) \<noteq> None"
  by (simp add: pebble_layer_def)

lemma drop_calls: "drop (length cs) (cs @ ds) = ds"
  by simp

lemma effects_append: "effects (xs @ ys) = effects xs @ effects ys"
  by (simp add: effects_def)

lemma effects_Cons: "effects (c # cs) = (if is_query c then effects cs else c # effects cs)"
  by (simp add: effects_def)

lemma effects_Nil: "effects [] = []"
  by (simp add: effects_def)

lemma effects_ready_calls: "effects (ready_calls w n) = []"
  by (simp add: ready_calls_def effects_Cons effects_Nil split: option.splits list.splits)

lemma effects_get_relation: "effects (map Get_relation rs) = []"
  by (induction rs) (simp_all add: effects_Cons effects_Nil)

lemma effects_checks: "effects (checks self w) = []"
proof -
  have "effects (concat (map (ready_calls w) rs)) = []" for rs
    by (induction rs) (simp_all add: effects_append effects_ready_calls effects_Nil)
  then show ?thesis by (simp add: checks_def effects_append effects_get_relation)
qed

lemma effects_writes:
  "effects (writes self v rels) = map (\<lambda>r. Relation_data_update (rel_id r) ''active'' v) rels"
  by (induction rels) (simp_all add: writes_def effects_Cons effects_Nil)

lemma filter_checks:
  "filter is_add_layer (checks self w) = []"
  "filter is_restart (checks self w) = []"
  "filter is_write (checks self w) = []"
  "filter is_defer (checks self w) = []"
proof -
  have q: "\<forall>c\<in>set (checks self w). is_query c"
    by (auto simp: checks_def ready_calls_def split: option.splits list.splits)
  have "is_query c \<Longrightarrow> \<not> is_add_layer c \<and> \<not> is_restart c \<and> \<not> is_write c \<and> \<not> is_defer c" for c
    by (cases c) simp_all
  with q show "filter is_add_layer (checks self w) = []"
    "filter is_restart (checks self w) = []"
    "filter is_write (checks self w) = []"
    "filter is_defer (checks self w) = []"
    by (auto simp: filter_empty_conv)
qed

lemma filter_writes:
  "filter is_add_layer (writes self v rels) = []"
  "filter is_restart (writes self v rels) = []"
  "filter is_defer (writes self v rels) = []"
  by (induction rels) (simp_all add: writes_def)

lemma filter_get_relation:
  "filter is_add_layer (map Get_relation rs) = []"
  "filter is_restart (map Get_relation rs) = []"
  "filter is_write (map Get_relation rs) = []"
  "filter is_defer (map Get_relation rs) = []"
  by (induction rs) simp_all

lemma checks_upd:
  "checks self (w\<lparr>unit_status := s\<rparr>) = checks self w"
  "checks self (w\<lparr>unit_data := d\<rparr>) = checks self w"
  "checks self (w\<lparr>plan := p\<rparr>) = checks self w"
  "checks self (w\<lparr>calls := cs\<rparr>) = checks self w"
  by (simp_all add: checks_def ready_upd ready_calls_upd)

lemma pebble_layer_upd2:
  "pebble_layer self (w\<lparr>reachable := b\<rparr>) = pebble_layer self w"
  "pebble_layer self (w\<lparr>leader := b\<rparr>) = pebble_layer self w"
  "pebble_layer self (w\<lparr>model_relations := rs\<rparr>) = pebble_layer self w"
  by (simp_all add: pebble_layer_def environment_variables_def namespace_def)

lemmas run_simps = model_relation_upd asked_upd ready_calls_upd ready_upd running_upd pebble_layer_upd pebble_layer_upd2
  layer_has_service checks_upd drop_calls effects_append effects_Cons effects_Nil
  effects_ready_calls effects_get_relation effects_checks effects_writes filter_checks
  filter_writes filter_get_relation

subsection \<open>The steps of the handlers\<close>

lemmas host_defs = ret_def throw_def seq_def read_def try_except_def record_call_def
  get_relation_def rel_units_def rel_data_get_def rel_data_update_def is_leader_def
  get_relations_def can_connect_def get_plan_def add_layer_def restart_def get_service_def
  set_status_def event_defer_def Let_def

lemma relation_active_eq:
  "relation_active name w =
     (if several w name then Inl ModelError else Inr (ready w name),
      w\<lparr>calls := calls w @ ready_calls w name\<rparr>)"
  by (simp add: relation_active_def relation_active_body_def host_defs ready_def ready_calls_def
      model_relation_def several_def split: option.splits list.splits)

lemma service_is_running_eq:
  "service_is_running self w = (Inr (running self w), w\<lparr>calls := calls w @ running_calls self w\<rparr>)"
  by (simp add: run_simps service_is_running_def host_defs running_def running_calls_def
      split: option.splits)

lemma get_relation_eq:
  "get_relation name w =
     (if several w name then Inl ModelError else Inr (model_relation w name),
      w\<lparr>calls := calls w @ [Get_relation name]\<rparr>)"
  by (simp add: get_relation_def record_call_def Let_def model_relation_def several_def
      split: list.splits)

lemma not_created_eq:
  "not_created rs w =
     (if \<exists>n\<in>set rs. several w n then Inl ModelError
      else Inr (filter (\<lambda>n. model_relation w n = None) rs),
      w\<lparr>calls := calls w @ map Get_relation (asked w rs)\<rparr>)"
  by (induction rs arbitrary: w) (simp_all add: run_simps get_relation_eq seq_def ret_def)

lemma not_active_eq:
  "\<forall>n\<in>set rs. \<not> several w n \<Longrightarrow>
   not_active rs w =
     (Inr (filter (\<lambda>n. \<not> ready w n) rs), w\<lparr>calls := calls w @ concat (map (ready_calls w) rs)\<rparr>)"
  by (induction rs arbitrary: w) (simp_all add: run_simps relation_active_eq seq_def ret_def)

lemma update_each_eq:
  "update_each self rels w =
     (Inr (),
      w\<lparr>unit_data := write_active (str_bool (running self w)) rels (unit_data w),
        calls := calls w @
          concat (map (\<lambda>r. running_calls self w @
                         [Relation_data_update (rel_id r) ''active'' (str_bool (running self w))]) rels)\<rparr>)"
  by (induction rels arbitrary: w)
     (simp_all add: run_simps service_is_running_eq update_relation_active_status_def seq_def ret_def
        rel_data_update_def record_call_def write_active_def)

lemma configure_charm_eq:
  "configure_charm self ev w =
    (Inr (),
     if reachable w then
       if plan w \<noteq> services (pebble_layer self w) then
         w\<lparr>unit_status := ActiveStatus,
           unit_data := (if leader w
              then write_active ''True'' (model_relations w (charm_meta_name self)) (unit_data w)
              else unit_data w),
           plan := plan w ++ services (pebble_layer self w),
           calls := calls w @
             [Can_connect, Set_status (MaintenanceStatus ''Configuring pod''), Get_plan,
              Add_layer (container_name self) (pebble_layer self w) True,
              Restart (service_name self), Is_leader] @
             (if leader w
              then Get_relations (charm_meta_name self) #
                   writes self ''True'' (model_relations w (charm_meta_name self))
              else []) @
             [Set_status ActiveStatus]\<rparr>
       else
         w\<lparr>unit_status := ActiveStatus,
           calls := calls w @
             [Can_connect, Set_status (MaintenanceStatus ''Configuring pod''), Get_plan,
              Set_status ActiveStatus]\<rparr>
     else
       w\<lparr>unit_status := WaitingStatus ''Waiting for container to be ready...'',
         calls := calls w @
           [Can_connect, Set_status (WaitingStatus ''Waiting for container to be ready...''),
            Defer ev]\<rparr>)"
  by (simp add: run_simps configure_charm_def update_relations_def update_each_eq host_defs
      running_def running_calls_def str_bool_def writes_def)

lemma configure_workload_eq:
  "configure_workload self ev w =
    (if \<exists>n\<in>set (required_relations self). several w n then
       (Inl ModelError,
        w\<lparr>calls := calls w @ map Get_relation (asked w (required_relations self))\<rparr>)
     else if filter (\<lambda>n. model_relation w n = None) (required_relations self) \<noteq> [] then
       (Inr (),
        w\<lparr>unit_status := BlockedStatus (created_message
                 (filter (\<lambda>n. model_relation w n = None) (required_relations self))),
          calls := calls w @ map Get_relation (required_relations self) @
            [Set_status (BlockedStatus (created_message
                 (filter (\<lambda>n. model_relation w n = None) (required_relations self)))),
             Defer ev]\<rparr>)
     else if filter (\<lambda>n. \<not> ready w n) (required_relations self) \<noteq> [] then
       (Inr (),
        w\<lparr>unit_status := WaitingStatus (ready_message
                 (filter (\<lambda>n. \<not> ready w n) (required_relations self))),
          calls := calls w @ checks self w @
            [Set_status (WaitingStatus (ready_message
                 (filter (\<lambda>n. \<not> ready w n) (required_relations self)))),
             Defer ev]\<rparr>)
     else configure_charm self ev (w\<lparr>calls := calls w @ checks self w\<rparr>))"
  by (simp add: run_simps configure_workload_def relations_created_def relations_ready_def
      not_created_eq not_active_eq asked_all host_defs created_message_def ready_message_def
      checks_def)

lemma ready_created: "ready w n \<Longrightarrow> model_relation w n \<noteq> None"
  by (auto simp: run_simps ready_def split: option.splits)

lemma ready_once: "ready w n \<Longrightarrow> \<not> several w n"
  by (metis ready_created created_once)

lemma all_ready:
  assumes "\<forall>n\<in>set rs. ready w n"
  shows "filter (\<lambda>n. model_relation w n = None) rs = []" "filter (\<lambda>n. \<not> ready w n) rs = []"
    "\<forall>n\<in>set rs. \<not> several w n"
  using assms by (auto simp: filter_empty_conv dest: ready_created ready_once)

lemma empty_plan_differs: "Map.empty \<noteq> services (pebble_layer self w)"
  by (metis layer_has_service)

lemma plan_after_apply:
  assumes "dom p \<subseteq> {service_name self}"
  shows "p ++ services (pebble_layer self w) = services (pebble_layer self w)"
proof
  fix k
  show "(p ++ services (pebble_layer self w)) k = services (pebble_layer self w) k"
  proof (cases "k = service_name self")
    case True
    then show ?thesis by (simp add: run_simps pebble_layer_def)
  next
    case False
    with assms have "p k = None" by auto
    with False show ?thesis by (simp add: run_simps pebble_layer_def map_add_def)
  qed
qed

lemma ready_cong: "model_relations w' = model_relations w \<Longrightarrow> ready w' = ready w"
  by (simp add: ready_def model_relation_def fun_eq_iff)

lemma several_cong: "model_relations w' = model_relations w \<Longrightarrow> several w' = several w"
  by (simp add: several_def fun_eq_iff)

lemma model_relation_cong:
  "model_relations w' = model_relations w \<Longrightarrow> model_relation w' = model_relation w"
  by (simp add: model_relation_def fun_eq_iff)

lemma pebble_layer_cong: "model_name w' = model_name w \<Longrightarrow> pebble_layer self w' = pebble_layer self w"
  by (simp add: run_simps pebble_layer_def environment_variables_def namespace_def)

lemma calls_grow:
  "calls (snd (configure_workload self ev w)) =
     calls w @ new_calls w (snd (configure_workload self ev w))"
  by (simp add: run_simps configure_workload_eq configure_charm_eq new_calls_def)

lemma new_calls_trans:
  assumes "calls w1 = calls w @ a" and "calls w2 = calls w1 @ b"
  shows "new_calls w w2 = new_calls w w1 @ new_calls w1 w2"
  using assms by (simp add: run_simps new_calls_def)

lemma at_most_one_apply:
  "length (filter is_add_layer (new_calls w (snd (configure_workload self ev w)))) \<le> 1"
  "length (filter is_restart (new_calls w (snd (configure_workload self ev w)))) \<le> 1"
  by (simp_all add: run_simps configure_workload_eq configure_charm_eq new_calls_def)

lemma no_apply:
  assumes "filter (\<lambda>n. model_relation w n = None) (required_relations self) \<noteq> [] \<or>
     filter (\<lambda>n. \<not> ready w n) (required_relations self) \<noteq> [] \<or>
     \<not> reachable w \<or> plan w = services (pebble_layer self w)"
  shows "filter is_add_layer (new_calls w (snd (configure_workload self ev w))) = []"
    "filter is_restart (new_calls w (snd (configure_workload self ev w))) = []"
  using assms by (auto simp: run_simps configure_workload_eq configure_charm_eq new_calls_def)

lemma configure_workload_frame:
  "model_relations (snd (configure_workload self ev w)) = model_relations w"
  "model_name (snd (configure_workload self ev w)) = model_name w"
  "reachable (snd (configure_workload self ev w)) = reachable w"
  by (simp_all add: run_simps configure_workload_eq configure_charm_eq)

lemma configure_workload_plan:
  "\<forall>n\<in>set (required_relations self). \<not> several w n \<Longrightarrow>
   plan (snd (configure_workload self ev w)) =
     (if filter (\<lambda>n. model_relation w n = None) (required_relations self) = [] \<and>
         filter (\<lambda>n. \<not> ready w n) (required_relations self) = [] \<and>
         reachable w \<and> plan w \<noteq> services (pebble_layer self w)
      then plan w ++ services (pebble_layer self w) else plan w)"
  by (simp add: run_simps configure_workload_eq configure_charm_eq)

lemma configure_workload_status:
  "\<forall>n\<in>set (required_relations self). \<not> several w n \<Longrightarrow>
   unit_status (snd (configure_workload self ev w)) = ActiveStatus \<longleftrightarrow>
     filter (\<lambda>n. model_relation w n = None) (required_relations self) = [] \<and>
     filter (\<lambda>n. \<not> ready w n) (required_relations self) = [] \<and> reachable w"
  by (simp add: run_simps configure_workload_eq configure_charm_eq)

lemma configure_workload_returns:
  "\<forall>n\<in>set (required_relations self). \<not> several w n \<Longrightarrow>
   fst (configure_workload self ev w) = Inr ()"
  by (simp add: run_simps configure_workload_eq configure_charm_eq)

subsection \<open>The charm and the worlds of the examples\<close>

lemmas fixture_defs = dummy_charm_def bare_charm_def Orc8rBase_def remote_relation_def
  requirer_relation_def fresh_world_def related_world_def crowded_world_def
  model_relation_def several_def

lemma fixture_simps:
  "plan fresh_world = Map.empty" "plan (related_world v1 v2) = Map.empty"
  "calls fresh_world = []" "calls (related_world v1 v2) = []"
  "pebble_layer self (related_world v1 v2) = pebble_layer self fresh_world"
  by (simp_all add: fixture_defs pebble_layer_def environment_variables_def namespace_def)

section \<open>The claims\<close>

text \<open>
  C1. When every required relation is created and ready, the container is reachable and
  the plan holds no service yet, the pebble-ready/upgrade handler returns normally, adds
  the layer exactly once and restarts the named service exactly once, and leaves the unit
  Active. The plan is then the layer's services, and the environment of the service is the
  caller's variables overridden by the three defaults: the container's name as
  SERVICE_HOSTNAME, "k8s" as SERVICE_REGISTRY_MODE and the model's name as
  SERVICE_REGISTRY_NAMESPACE (in \<open>m ++ d\<close> the entries of \<open>d\<close> win).
\<close>

theorem configure_workload_first_apply:
  assumes "\<forall>n\<in>set (required_relations self). model_relation w n \<noteq> None \<and> ready w n"
    and "reachable w" and "plan w = Map.empty"
  shows "fst (configure_workload self ev w) = Inr () \<and>
     filter is_add_layer (new_calls w (snd (configure_workload self ev w))) =
       [Add_layer (container_name self) (pebble_layer self w) True] \<and>
     filter is_restart (new_calls w (snd (configure_workload self ev w))) =
       [Restart (service_name self)] \<and>
     unit_status (snd (configure_workload self ev w)) = ActiveStatus \<and>
     plan (snd (configure_workload self ev w)) = services (pebble_layer self w) \<and>
     map_option environment (services (pebble_layer self w) (service_name self)) =
       Some (additional_environment_variables self ++
             [''SERVICE_HOSTNAME'' \<mapsto> container_name self,
              ''SERVICE_REGISTRY_MODE'' \<mapsto> ''k8s'',
              ''SERVICE_REGISTRY_NAMESPACE'' \<mapsto> model_name w])"
proof -
  have r: "\<forall>n\<in>set (required_relations self). ready w n" using assms(1) by blast
  have ne: "Map.empty \<noteq> services (pebble_layer self w)"
    by (metis layer_has_service)
  have env: "map_option environment (services (pebble_layer self w) (service_name self)) =
       Some (additional_environment_variables self ++
             [''SERVICE_HOSTNAME'' \<mapsto> container_name self,
              ''SERVICE_REGISTRY_MODE'' \<mapsto> ''k8s'',
              ''SERVICE_REGISTRY_NAMESPACE'' \<mapsto> model_name w])"
    by (simp add: run_simps pebble_layer_def environment_variables_def namespace_def)
  show ?thesis
    using assms(2,3) ne env
    by (simp add: run_simps configure_workload_eq all_ready [OF r] configure_charm_eq new_calls_def)
qed

theorem configure_workload_first_apply_witness:
  "unit_status (snd (configure_workload dummy_charm PebbleReadyEvent
      ((related_world ''True'' ''True'')\<lparr>reachable := True, leader := True\<rparr>))) = ActiveStatus \<and>
   map_option environment (plan (snd (configure_workload dummy_charm PebbleReadyEvent
      ((related_world ''True'' ''True'')\<lparr>reachable := True, leader := True\<rparr>))) ''magma-orc8r-dummy'') =
     Some [''LOG_LEVEL'' \<mapsto> ''debug'', ''SERVICE_HOSTNAME'' \<mapsto> ''magma-orc8r-dummy'',
           ''SERVICE_REGISTRY_MODE'' \<mapsto> ''k8s'', ''SERVICE_REGISTRY_NAMESPACE'' \<mapsto> ''banana'']"
proof -
  let ?w = "(related_world ''True'' ''True'')\<lparr>reachable := True, leader := True\<rparr>"
  have h1: "\<forall>n\<in>set (required_relations dummy_charm). model_relation ?w n \<noteq> None \<and> ready ?w n"
    by (simp add: run_simps fixture_defs fixture_simps ready_def)
  have h2: "reachable ?w" and h3: "plan ?w = Map.empty"
    by (simp_all add: run_simps fixture_defs fixture_simps)
  have e: "additional_environment_variables dummy_charm ++
       [''SERVICE_HOSTNAME'' \<mapsto> container_name dummy_charm,
        ''SERVICE_REGISTRY_MODE'' \<mapsto> ''k8s'',
        ''SERVICE_REGISTRY_NAMESPACE'' \<mapsto> model_name ?w] =
     [''LOG_LEVEL'' \<mapsto> ''debug'', ''SERVICE_HOSTNAME'' \<mapsto> ''magma-orc8r-dummy'',
      ''SERVICE_REGISTRY_MODE'' \<mapsto> ''k8s'', ''SERVICE_REGISTRY_NAMESPACE'' \<mapsto> ''banana'']"
    by (auto simp: run_simps fixture_defs fixture_simps fun_eq_iff map_add_def)
  note c = configure_workload_first_apply [OF h1 h2 h3, of PebbleReadyEvent]
  have n: "service_name dummy_charm = ''magma-orc8r-dummy''"
    by (simp add: run_simps fixture_defs fixture_simps)
  from c have "unit_status (snd (configure_workload dummy_charm PebbleReadyEvent ?w)) = ActiveStatus"
    by blast
  moreover from c have "plan (snd (configure_workload dummy_charm PebbleReadyEvent ?w)) =
      services (pebble_layer dummy_charm ?w)"
    by blast
  moreover from c have "map_option environment (services (pebble_layer dummy_charm ?w) ''magma-orc8r-dummy'') =
     Some [''LOG_LEVEL'' \<mapsto> ''debug'', ''SERVICE_HOSTNAME'' \<mapsto> ''magma-orc8r-dummy'',
      ''SERVICE_REGISTRY_MODE'' \<mapsto> ''k8s'', ''SERVICE_REGISTRY_NAMESPACE'' \<mapsto> ''banana'']"
    unfolding e n by blast
  ultimately show ?thesis by simp
qed

text \<open>
  C2, as the claim states it, fails: when the plan holds a service under another name, the
  plan's services never equal the layer's, and the second call adds the layer and restarts
  the service again.
\<close>

theorem second_apply_counterexample:
  "length (filter is_add_layer (calls (snd (configure_workload bare_charm UpgradeCharmEvent
     (snd (configure_workload bare_charm PebbleReadyEvent
        (fresh_world\<lparr>reachable := True, plan := [''other'' \<mapsto> other_service]\<rparr>))))))) = 2 \<and>
   length (filter is_restart (calls (snd (configure_workload bare_charm UpgradeCharmEvent
     (snd (configure_workload bare_charm PebbleReadyEvent
        (fresh_world\<lparr>reachable := True, plan := [''other'' \<mapsto> other_service]\<rparr>))))))) = 2"
proof -
  let ?w = "fresh_world\<lparr>reachable := True, plan := [''other'' \<mapsto> other_service]\<rparr>"
  let ?L = "services (pebble_layer bare_charm fresh_world)"
  have f: "required_relations bare_charm = []" "service_name bare_charm = ''magma-orc8r-dummy''"
    "\<not> leader fresh_world"
    by (simp_all add: run_simps fixture_defs fixture_simps)
  have d1: "[''other'' \<mapsto> other_service] \<noteq> ?L"
  proof
    assume "[''other'' \<mapsto> other_service] = ?L"
    then have "[''other'' \<mapsto> other_service] ''magma-orc8r-dummy'' = ?L ''magma-orc8r-dummy''"
      by simp
    then show False by (simp add: run_simps pebble_layer_def f)
  qed
  have d2: "[''other'' \<mapsto> other_service] ++ ?L \<noteq> ?L"
  proof
    assume "[''other'' \<mapsto> other_service] ++ ?L = ?L"
    then have "([''other'' \<mapsto> other_service] ++ ?L) ''other'' = ?L ''other''"
      by simp
    then show False by (simp add: run_simps pebble_layer_def f map_add_def)
  qed
  show ?thesis
    by (simp add: run_simps fixture_simps configure_workload_eq configure_charm_eq f checks_def d1 d2)
qed

text \<open>
  C2, amended. Let the plan hold no service under a name other than the service's before the
  first call, and let no required endpoint hold several relations (there
  \<open>get_relation\<close> raises, and the handler with it). Then of two calls of the handler
  in a row, the second returns normally and neither adds the layer nor restarts the
  service, and the two calls together add the layer at most once and restart at most once.
  If the first call left the unit Active, the plan's services then equal the computed
  layer's, and the unit is Active after the second call.
\<close>

theorem configure_workload_twice:
  assumes "dom (plan w) \<subseteq> {service_name self}"
    and "\<forall>n\<in>set (required_relations self). \<not> several w n"
  shows "fst (configure_workload self ev' (snd (configure_workload self ev w))) = Inr () \<and>
    filter is_add_layer (new_calls (snd (configure_workload self ev w))
       (snd (configure_workload self ev' (snd (configure_workload self ev w))))) = [] \<and>
    filter is_restart (new_calls (snd (configure_workload self ev w))
       (snd (configure_workload self ev' (snd (configure_workload self ev w))))) = [] \<and>
    length (filter is_add_layer (new_calls w
       (snd (configure_workload self ev' (snd (configure_workload self ev w)))))) \<le> 1 \<and>
    length (filter is_restart (new_calls w
       (snd (configure_workload self ev' (snd (configure_workload self ev w)))))) \<le> 1 \<and>
    (unit_status (snd (configure_workload self ev w)) = ActiveStatus \<longrightarrow>
       plan (snd (configure_workload self ev w)) =
         services (pebble_layer self (snd (configure_workload self ev w))) \<and>
       unit_status (snd (configure_workload self ev' (snd (configure_workload self ev w)))) =
         ActiveStatus)"
proof -
  let ?rs = "required_relations self"
  define w1 where "w1 = snd (configure_workload self ev w)"
  define w2 where "w2 = snd (configure_workload self ev' w1)"
  note once = assms(2)
  have rels: "model_relations w1 = model_relations w" and reach: "reachable w1 = reachable w"
    unfolding w1_def by (simp_all add: configure_workload_frame)
  have rel: "model_relation w1 = model_relation w"
    using rels by (rule model_relation_cong)
  have sev: "several w1 = several w"
    using rels by (rule several_cong)
  have once1: "\<forall>n\<in>set ?rs. \<not> several w1 n"
    using once by (simp add: sev)
  have layer: "pebble_layer self w1 = pebble_layer self w"
    unfolding w1_def by (rule pebble_layer_cong) (simp add: run_simps configure_workload_frame)
  have rdy: "ready w1 = ready w"
    using rels by (rule ready_cong)
  have pl: "filter (\<lambda>n. model_relation w n = None) ?rs = [] \<Longrightarrow>
      filter (\<lambda>n. \<not> ready w n) ?rs = [] \<Longrightarrow> reachable w \<Longrightarrow>
      plan w1 = services (pebble_layer self w)"
    unfolding w1_def configure_workload_plan [OF once]
    by (simp add: run_simps plan_after_apply [OF assms(1)])
  have settled: "filter (\<lambda>n. model_relation w1 n = None) ?rs \<noteq> [] \<or>
     filter (\<lambda>n. \<not> ready w1 n) ?rs \<noteq> [] \<or>
     \<not> reachable w1 \<or> plan w1 = services (pebble_layer self w1)"
    using pl by (auto simp: run_simps rel reach layer rdy)
  have second: "filter is_add_layer (new_calls w1 w2) = []" "filter is_restart (new_calls w1 w2) = []"
    unfolding w2_def using no_apply [OF settled] by simp_all
  have split: "new_calls w w2 = new_calls w w1 @ new_calls w1 w2"
    unfolding w1_def w2_def by (rule new_calls_trans [OF calls_grow calls_grow])
  have total: "length (filter is_add_layer (new_calls w w2)) \<le> 1"
    "length (filter is_restart (new_calls w w2)) \<le> 1"
    using at_most_one_apply [of w self ev, folded w1_def] by (simp_all add: run_simps split second)
  have st1: "unit_status w1 = ActiveStatus \<longleftrightarrow>
      filter (\<lambda>n. model_relation w n = None) ?rs = [] \<and>
      filter (\<lambda>n. \<not> ready w n) ?rs = [] \<and> reachable w"
    unfolding w1_def by (rule configure_workload_status [OF once])
  have st2: "unit_status w2 = ActiveStatus \<longleftrightarrow>
      filter (\<lambda>n. model_relation w1 n = None) ?rs = [] \<and>
      filter (\<lambda>n. \<not> ready w1 n) ?rs = [] \<and> reachable w1"
    unfolding w2_def by (rule configure_workload_status [OF once1])
  have stays: "unit_status w1 = ActiveStatus \<Longrightarrow>
      plan w1 = services (pebble_layer self w1) \<and> unit_status w2 = ActiveStatus"
    using pl by (simp add: st1 st2 rel reach layer rdy)
  have "fst (configure_workload self ev' w1) = Inr ()"
    by (rule configure_workload_returns [OF once1])
  with second total stays show ?thesis
    unfolding w1_def w2_def by blast
qed

theorem configure_workload_twice_witness:
  "plan (snd (configure_workload bare_charm PebbleReadyEvent (fresh_world\<lparr>reachable := True\<rparr>))) =
     services (pebble_layer bare_charm fresh_world) \<and>
   unit_status (snd (configure_workload bare_charm UpgradeCharmEvent
     (snd (configure_workload bare_charm PebbleReadyEvent (fresh_world\<lparr>reachable := True\<rparr>))))) =
     ActiveStatus \<and>
   length (filter is_add_layer (calls (snd (configure_workload bare_charm UpgradeCharmEvent
     (snd (configure_workload bare_charm PebbleReadyEvent (fresh_world\<lparr>reachable := True\<rparr>))))))) = 1"
proof -
  let ?w = "fresh_world\<lparr>reachable := True\<rparr>"
  let ?w1 = "snd (configure_workload bare_charm PebbleReadyEvent ?w)"
  let ?w2 = "snd (configure_workload bare_charm UpgradeCharmEvent ?w1)"
  have h: "dom (plan ?w) \<subseteq> {service_name bare_charm}" by (simp add: fixture_simps)
  have f: "required_relations bare_charm = []" by (simp add: run_simps fixture_defs fixture_simps)
  have h2: "\<forall>n\<in>set (required_relations bare_charm). \<not> several ?w n"
    by (simp add: f)
  have a: "unit_status ?w1 = ActiveStatus"
    by (simp add: run_simps configure_workload_status f)
  have l: "pebble_layer bare_charm ?w1 = pebble_layer bare_charm fresh_world"
    by (rule pebble_layer_cong) (simp add: run_simps configure_workload_frame)
  have first: "length (filter is_add_layer (new_calls ?w ?w1)) = 1"
    by (simp add: run_simps fixture_simps configure_workload_eq configure_charm_eq f new_calls_def empty_plan_differs checks_def)
  have split: "new_calls ?w ?w2 = new_calls ?w ?w1 @ new_calls ?w1 ?w2"
    by (rule new_calls_trans [OF calls_grow calls_grow])
  note t = configure_workload_twice [OF h h2, of UpgradeCharmEvent PebbleReadyEvent]
  from t a have p: "plan ?w1 = services (pebble_layer bare_charm ?w1)"
    and s: "unit_status ?w2 = ActiveStatus"
    and second: "filter is_add_layer (new_calls ?w1 ?w2) = []"
    by blast+
  have n0: "calls ?w2 = new_calls ?w ?w2"
    by (simp add: run_simps fixture_simps new_calls_def)
  have "length (filter is_add_layer (calls ?w2)) = 1"
    unfolding n0 split by (simp only: filter_append length_append first second list.size)
  with p s show ?thesis
    unfolding l by blast
qed

text \<open>
  C3. Let \<open>S\<close> be a non-empty set of required relation names, and let exactly the
  required relations of \<open>S\<close> not exist, each of the others being the one relation of its
  endpoint. Then the handler returns normally, the unit is
  Blocked with the message "Waiting for relation(s) to be created: " followed by the names
  of \<open>S\<close>, joined by ", " in the order of \<open>required_relations\<close>, and the event is
  deferred. The handler's calls are one \<open>get_relation\<close> for each required relation, the
  status and the deferral: it reads no unit and no data bag of a relation (no readiness
  check), adds no layer and restarts nothing, and the world is otherwise unchanged.
\<close>

theorem configure_workload_missing_relations:
  assumes "S \<noteq> {}" and "S \<subseteq> set (required_relations self)"
    and "\<forall>n\<in>set (required_relations self). (model_relation w n = None) = (n \<in> S)"
    and "\<forall>n\<in>set (required_relations self). \<not> several w n"
  shows "configure_workload self ev w =
    (Inr (),
     w\<lparr>unit_status := BlockedStatus (''Waiting for relation(s) to be created: '' @
                 join '', '' (filter (\<lambda>n. n \<in> S) (required_relations self))),
       calls := calls w @ map Get_relation (required_relations self) @
          [Set_status (BlockedStatus (''Waiting for relation(s) to be created: '' @
                 join '', '' (filter (\<lambda>n. n \<in> S) (required_relations self)))),
           Defer ev]\<rparr>)"
proof -
  let ?rs = "required_relations self"
  have eq: "filter (\<lambda>n. model_relation w n = None) ?rs = filter (\<lambda>n. n \<in> S) ?rs"
    using assms(3) by (intro filter_cong) auto
  obtain n where "n \<in> S" using assms(1) by auto
  then have ne: "filter (\<lambda>n. n \<in> S) ?rs \<noteq> []"
    using assms(2) by (auto simp: run_simps filter_empty_conv)
  show ?thesis
    using ne assms(4)
    by (simp add: run_simps configure_workload_eq eq created_message_def asked_all)
qed

theorem configure_workload_missing_relations_witness:
  "configure_workload dummy_charm UpgradeCharmEvent
     (fresh_world\<lparr>model_relations := (\<lambda>_. [])(''db'' := [remote_relation 2 ''True''])\<rparr>) =
   (Inr (),
    fresh_world\<lparr>model_relations := (\<lambda>_. [])(''db'' := [remote_relation 2 ''True'']),
      unit_status := BlockedStatus ''Waiting for relation(s) to be created: magma-orc8r-whatever'',
      calls := [Get_relation ''magma-orc8r-whatever'', Get_relation ''db'',
                Set_status (BlockedStatus ''Waiting for relation(s) to be created: magma-orc8r-whatever''),
                Defer UpgradeCharmEvent]\<rparr>)"
proof -
  let ?w = "fresh_world\<lparr>model_relations := (\<lambda>_. [])(''db'' := [remote_relation 2 ''True''])\<rparr>"
  have h1: "{''magma-orc8r-whatever''} \<noteq> {}" by simp
  have h2: "{''magma-orc8r-whatever''} \<subseteq> set (required_relations dummy_charm)"
    by (simp add: run_simps fixture_defs fixture_simps)
  have h3: "\<forall>n\<in>set (required_relations dummy_charm).
      (model_relation ?w n = None) = (n \<in> {''magma-orc8r-whatever''})"
    by (simp add: run_simps fixture_defs fixture_simps)
  have h4: "\<forall>n\<in>set (required_relations dummy_charm). \<not> several ?w n"
    by (simp add: run_simps fixture_defs fixture_simps)
  from configure_workload_missing_relations [OF h1 h2 h3 h4, of UpgradeCharmEvent]
  show ?thesis by (simp add: run_simps fixture_defs fixture_simps)
qed

text \<open>
  C4. Let every required relation exist, let \<open>S\<close> be a non-empty set of required
  relation names, and let exactly the required relations of \<open>S\<close> not be ready (the
  first counterpart unit has not set "active" to "True"). Then the handler returns
  normally, the unit is Waiting with the message "Waiting for relation(s) to be ready: "
  followed by the names of \<open>S\<close> in the order of \<open>required_relations\<close>, and the
  event is deferred. Apart from the lookups of the two checks, the status and the deferral
  are all the handler does: no layer is added and nothing is restarted.
\<close>

theorem configure_workload_relations_not_ready:
  assumes "\<forall>n\<in>set (required_relations self). model_relation w n \<noteq> None"
    and "S \<noteq> {}" and "S \<subseteq> set (required_relations self)"
    and "\<forall>n\<in>set (required_relations self). (\<not> ready w n) = (n \<in> S)"
  shows "configure_workload self ev w =
    (Inr (),
     w\<lparr>unit_status := WaitingStatus (''Waiting for relation(s) to be ready: '' @
                 join '', '' (filter (\<lambda>n. n \<in> S) (required_relations self))),
       calls := calls w @ checks self w @
          [Set_status (WaitingStatus (''Waiting for relation(s) to be ready: '' @
                 join '', '' (filter (\<lambda>n. n \<in> S) (required_relations self)))),
           Defer ev]\<rparr>) \<and>
    effects (new_calls w (snd (configure_workload self ev w))) =
      [Set_status (WaitingStatus (''Waiting for relation(s) to be ready: '' @
                 join '', '' (filter (\<lambda>n. n \<in> S) (required_relations self)))),
       Defer ev]"
proof -
  let ?rs = "required_relations self"
  have c: "filter (\<lambda>n. model_relation w n = None) ?rs = []"
    using assms(1) by (auto simp: run_simps filter_empty_conv)
  have eq: "filter (\<lambda>n. \<not> ready w n) ?rs = filter (\<lambda>n. n \<in> S) ?rs"
    using assms(4) by (intro filter_cong) auto
  obtain n where "n \<in> S" using assms(2) by auto
  then have ne: "filter (\<lambda>n. n \<in> S) ?rs \<noteq> []"
    using assms(3) by (auto simp: run_simps filter_empty_conv)
  have once: "\<forall>n\<in>set ?rs. \<not> several w n"
    using assms(1) by (metis created_once)
  show ?thesis
    using ne once
    by (simp add: run_simps configure_workload_eq c eq ready_message_def new_calls_def)
qed

theorem configure_workload_relations_not_ready_witness:
  "unit_status (snd (configure_workload dummy_charm UpgradeCharmEvent (related_world ''true'' ''True''))) =
     WaitingStatus ''Waiting for relation(s) to be ready: magma-orc8r-whatever'' \<and>
   effects (calls (snd (configure_workload dummy_charm UpgradeCharmEvent (related_world ''true'' ''True'')))) =
     [Set_status (WaitingStatus ''Waiting for relation(s) to be ready: magma-orc8r-whatever''),
      Defer UpgradeCharmEvent]"
proof -
  let ?w = "related_world ''true'' ''True''"
  have h1: "\<forall>n\<in>set (required_relations dummy_charm). model_relation ?w n \<noteq> None"
    by (simp add: run_simps fixture_defs fixture_simps)
  have h2: "{''magma-orc8r-whatever''} \<noteq> {}" by simp
  have h3: "{''magma-orc8r-whatever''} \<subseteq> set (required_relations dummy_charm)"
    by (simp add: run_simps fixture_defs fixture_simps)
  have h4: "\<forall>n\<in>set (required_relations dummy_charm).
      (\<not> ready ?w n) = (n \<in> {''magma-orc8r-whatever''})"
    by (simp add: run_simps fixture_defs fixture_simps ready_def)
  have c0: "calls ?w = []" by (simp add: run_simps fixture_defs fixture_simps)
  from configure_workload_relations_not_ready [OF h1 h2 h3 h4, of UpgradeCharmEvent]
  show ?thesis by (simp add: run_simps new_calls_def c0 dummy_charm_def Orc8rBase_def)
qed

text \<open>
  C5, as the claim states it, fails: with an unreachable container and a missing required
  relation the unit is Blocked, not Waiting, because the relations are checked first.
\<close>

theorem unreachable_and_missing_counterexample:
  "\<not> reachable fresh_world \<and>
   unit_status (snd (configure_workload dummy_charm PebbleReadyEvent fresh_world)) =
     BlockedStatus ''Waiting for relation(s) to be created: magma-orc8r-whatever, db''"
  by (simp add: run_simps configure_workload_eq created_message_def fixture_defs fixture_simps)

text \<open>
  C5, amended. Whenever the container cannot be connected to, and no required endpoint
  holds several relations, the handler returns normally and defers the event exactly once,
  whether the required relations are missing, not ready or ready, and adds no layer and
  restarts nothing. The status is Blocked, naming the missing relations, when
  a required relation is missing; otherwise it is Waiting: naming the relations that are
  not ready when there are some, and "Waiting for container to be ready..." when all are
  ready.
\<close>

theorem configure_workload_unreachable:
  assumes "\<not> reachable w"
    and "\<forall>n\<in>set (required_relations self). \<not> several w n"
  shows "fst (configure_workload self ev w) = Inr () \<and>
    filter is_defer (new_calls w (snd (configure_workload self ev w))) = [Defer ev] \<and>
    filter is_add_layer (new_calls w (snd (configure_workload self ev w))) = [] \<and>
    filter is_restart (new_calls w (snd (configure_workload self ev w))) = [] \<and>
    unit_status (snd (configure_workload self ev w)) =
      (if filter (\<lambda>n. model_relation w n = None) (required_relations self) \<noteq> [] then
         BlockedStatus (''Waiting for relation(s) to be created: '' @
           join '', '' (filter (\<lambda>n. model_relation w n = None) (required_relations self)))
       else if filter (\<lambda>n. \<not> ready w n) (required_relations self) \<noteq> [] then
         WaitingStatus (''Waiting for relation(s) to be ready: '' @
           join '', '' (filter (\<lambda>n. \<not> ready w n) (required_relations self)))
       else WaitingStatus ''Waiting for container to be ready...'')"
  using assms
  by (simp add: run_simps configure_workload_eq configure_charm_eq new_calls_def created_message_def
      ready_message_def)

theorem configure_workload_unreachable_witness:
  "unit_status (snd (configure_workload dummy_charm PebbleReadyEvent (related_world ''True'' ''True''))) =
     WaitingStatus ''Waiting for container to be ready...'' \<and>
   filter is_defer (calls (snd (configure_workload dummy_charm PebbleReadyEvent
     (related_world ''True'' ''True'')))) = [Defer PebbleReadyEvent]"
proof -
  let ?w = "related_world ''True'' ''True''"
  have h: "\<not> reachable ?w" by (simp add: run_simps fixture_defs fixture_simps)
  have c0: "calls ?w = []" by (simp add: run_simps fixture_defs fixture_simps)
  have h2: "\<forall>n\<in>set (required_relations dummy_charm). \<not> several ?w n"
    by (simp add: run_simps fixture_defs fixture_simps)
  from configure_workload_unreachable [OF h h2, of PebbleReadyEvent]
  show ?thesis by (simp add: run_simps new_calls_def c0 fixture_defs fixture_simps ready_def)
qed

text \<open>
  C6. The probe \<open>_service_is_running\<close> always returns: its value is True exactly when
  the container can be connected to and \<open>get_service\<close> returns the named service. It is
  False when the container is unreachable, and False when \<open>get_service\<close> raises
  ModelError; in neither case does the exception leave the probe.
\<close>

theorem service_is_running_total:
  "fst (service_is_running self w) =
     Inr (reachable w \<and> (\<exists>s. fst (get_service (service_name self) w) = Inr s)) \<and>
   (\<not> reachable w \<longrightarrow> fst (service_is_running self w) = Inr False) \<and>
   (fst (get_service (service_name self) w) = Inl ModelError \<longrightarrow>
      fst (service_is_running self w) = Inr False)"
  by (auto simp: run_simps service_is_running_eq running_def get_service_def Let_def split: option.splits)

theorem service_is_running_total_witness:
  "\<not> reachable fresh_world \<and>
   fst (get_service (service_name bare_charm) fresh_world) = Inl ModelError \<and>
   fst (service_is_running bare_charm fresh_world) = Inr False"
proof -
  have h1: "\<not> reachable fresh_world" by (simp add: run_simps fixture_defs fixture_simps)
  have h2: "fst (get_service (service_name bare_charm) fresh_world) = Inl ModelError"
    by (simp add: run_simps fixture_defs fixture_simps get_service_def)
  from service_is_running_total [of bare_charm fresh_world] h1 h2 show ?thesis by blast
qed

text \<open>
  C7. The relation-joined handler returns normally. A unit that is not the leader writes
  nothing and does not defer. A leader whose workload service is running writes "True"
  under "active" in the unit's data bag of the joined relation and does not defer; a
  leader whose service is not running writes "False" there and defers the event.
\<close>

theorem on_relation_joined_cases:
  "fst (on_relation_joined self rel w) = Inr () \<and>
   effects (new_calls w (snd (on_relation_joined self rel w))) =
     (if \<not> leader w then []
      else if fst (service_is_running self w) = Inr True then
        [Relation_data_update (rel_id rel) ''active'' ''True'']
      else
        [Relation_data_update (rel_id rel) ''active'' ''False'', Defer (RelationJoinedEvent rel)]) \<and>
   unit_data (snd (on_relation_joined self rel w)) =
     (if \<not> leader w then unit_data w
      else (unit_data w)(rel_id rel := (unit_data w (rel_id rel))
             (''active'' \<mapsto> (if fst (service_is_running self w) = Inr True then ''True'' else ''False''))))"
  by (simp add: run_simps on_relation_joined_def service_is_running_eq update_relation_active_status_def
      host_defs new_calls_def str_bool_def running_calls_def)

theorem on_relation_joined_cases_witness:
  "effects (calls (snd (on_relation_joined bare_charm (requirer_relation 3)
      (fresh_world\<lparr>leader := True\<rparr>)))) =
     [Relation_data_update 3 ''active'' ''False'',
      Defer (RelationJoinedEvent (requirer_relation 3))] \<and>
   unit_data (snd (on_relation_joined bare_charm (requirer_relation 3)
      (fresh_world\<lparr>leader := True\<rparr>))) 3 ''active'' = Some ''False'' \<and>
   effects (calls (snd (on_relation_joined bare_charm (requirer_relation 3)
      (fresh_world\<lparr>leader := True, reachable := True,
         plan := services (pebble_layer bare_charm fresh_world)\<rparr>)))) =
     [Relation_data_update 3 ''active'' ''True''] \<and>
   effects (calls (snd (on_relation_joined bare_charm (requirer_relation 3) fresh_world))) = []"
proof -
  let ?w1 = "fresh_world\<lparr>leader := True\<rparr>"
  let ?w2 = "fresh_world\<lparr>leader := True, reachable := True,
         plan := services (pebble_layer bare_charm fresh_world)\<rparr>"
  have r1: "fst (service_is_running bare_charm ?w1) = Inr False"
    by (simp add: run_simps service_is_running_eq running_def fixture_defs fixture_simps)
  have r2: "fst (service_is_running bare_charm ?w2) = Inr True"
    by (simp add: run_simps service_is_running_eq running_def)
  have f: "leader ?w1" "leader ?w2" "\<not> leader fresh_world" "rel_id (requirer_relation 3) = 3"
    by (simp_all add: run_simps fixture_defs fixture_simps)
  from on_relation_joined_cases [of bare_charm "requirer_relation 3" ?w1]
    on_relation_joined_cases [of bare_charm "requirer_relation 3" ?w2]
    on_relation_joined_cases [of bare_charm "requirer_relation 3" fresh_world]
  show ?thesis
    by (simp add: run_simps fixture_simps r1 r2 f new_calls_def)
qed

text \<open>
  C8. A unit that is not the leader writes into no data bag, in either handler: the run
  records no write, the unit's own bags are as before, and so are the relations and the
  bags of their counterpart units.
\<close>

theorem non_leader_writes_nothing:
  assumes "\<not> leader w"
  shows "filter is_write (new_calls w (snd (configure_workload self ev w))) = [] \<and>
    unit_data (snd (configure_workload self ev w)) = unit_data w \<and>
    model_relation (snd (configure_workload self ev w)) = model_relation w \<and>
    model_relations (snd (configure_workload self ev w)) = model_relations w \<and>
    filter is_write (new_calls w (snd (on_relation_joined self rel w))) = [] \<and>
    unit_data (snd (on_relation_joined self rel w)) = unit_data w \<and>
    model_relation (snd (on_relation_joined self rel w)) = model_relation w \<and>
    model_relations (snd (on_relation_joined self rel w)) = model_relations w"
proof -
  have a: "filter is_write (new_calls w (snd (configure_workload self ev w))) = [] \<and>
    unit_data (snd (configure_workload self ev w)) = unit_data w \<and>
    model_relation (snd (configure_workload self ev w)) = model_relation w \<and>
    model_relations (snd (configure_workload self ev w)) = model_relations w"
    using assms by (simp add: run_simps configure_workload_eq configure_charm_eq new_calls_def)
  have b: "filter is_write (new_calls w (snd (on_relation_joined self rel w))) = [] \<and>
    unit_data (snd (on_relation_joined self rel w)) = unit_data w \<and>
    model_relation (snd (on_relation_joined self rel w)) = model_relation w \<and>
    model_relations (snd (on_relation_joined self rel w)) = model_relations w"
    using assms by (simp add: run_simps on_relation_joined_def host_defs new_calls_def)
  from a b show ?thesis by blast
qed

theorem non_leader_writes_nothing_witness:
  "filter is_write (calls (snd (configure_workload bare_charm PebbleReadyEvent
      ((related_world ''True'' ''True'')\<lparr>reachable := True\<rparr>)))) = [] \<and>
   filter is_add_layer (calls (snd (configure_workload bare_charm PebbleReadyEvent
      ((related_world ''True'' ''True'')\<lparr>reachable := True\<rparr>)))) \<noteq> [] \<and>
   filter is_write (calls (snd (on_relation_joined bare_charm (requirer_relation 3)
      ((related_world ''True'' ''True'')\<lparr>reachable := True\<rparr>)))) = []"
proof -
  let ?w = "(related_world ''True'' ''True'')\<lparr>reachable := True\<rparr>"
  have h: "\<not> leader ?w" by (simp add: run_simps fixture_defs fixture_simps)
  have c0: "calls ?w = []" by (simp add: run_simps fixture_defs fixture_simps)
  have r: "reachable ?w" "required_relations bare_charm = []"
    by (simp_all add: run_simps fixture_defs fixture_simps)
  have "filter is_add_layer (calls (snd (configure_workload bare_charm PebbleReadyEvent ?w))) \<noteq> []"
    by (simp add: run_simps fixture_simps configure_workload_eq configure_charm_eq r empty_plan_differs checks_def)
  with non_leader_writes_nothing [OF h, of bare_charm PebbleReadyEvent "requirer_relation 3"]
  show ?thesis by (simp add: run_simps new_calls_def c0)
qed

text \<open>
  C9, as the claim states it, fails: a unit that is not the leader applies the layer and
  restarts the service, but writes nothing into the relation it holds under the charm's
  name.
\<close>

theorem non_leader_publishes_nothing_counterexample:
  "plan (fresh_world\<lparr>reachable := True,
          model_relations := (\<lambda>_. [])(''magma-orc8r-dummy'' := [requirer_relation 3])\<rparr>) \<noteq>
     services (pebble_layer bare_charm fresh_world) \<and>
   model_relations (fresh_world\<lparr>reachable := True,
       model_relations := (\<lambda>_. [])(''magma-orc8r-dummy'' := [requirer_relation 3])\<rparr>)
     (charm_meta_name bare_charm) = [requirer_relation 3] \<and>
   effects (calls (snd (configure_workload bare_charm PebbleReadyEvent
     (fresh_world\<lparr>reachable := True,
        model_relations := (\<lambda>_. [])(''magma-orc8r-dummy'' := [requirer_relation 3])\<rparr>)))) =
     [Set_status (MaintenanceStatus ''Configuring pod''),
      Add_layer ''magma-orc8r-dummy'' (pebble_layer bare_charm fresh_world) True,
      Restart ''magma-orc8r-dummy'',
      Set_status ActiveStatus]"
proof -
  have f: "required_relations bare_charm = []" "charm_meta_name bare_charm = ''magma-orc8r-dummy''"
    "container_name bare_charm = ''magma-orc8r-dummy''" "service_name bare_charm = ''magma-orc8r-dummy''"
    "\<not> leader fresh_world"
    by (simp_all add: run_simps fixture_defs fixture_simps)
  show ?thesis
    by (simp add: run_simps fixture_simps configure_workload_eq configure_charm_eq empty_plan_differs f checks_def)
qed

text \<open>
  C9, amended. Let the required relations be created and ready and the container
  reachable. When the plan's services differ from the computed layer's, the handler, in
  this order, adds the layer (the plan's entry of the named service is replaced, every other
  entry stays), restarts the named service and then, if the unit is the leader, writes
  "True" under "active" into the unit's bag of every relation held under the charm's name;
  a unit that is not the leader writes nothing. When the services are equal, none of the
  three happens. In both cases the status goes to Maintenance and ends Active.
\<close>

theorem configure_workload_apply_restart_publish:
  assumes "\<forall>n\<in>set (required_relations self). model_relation w n \<noteq> None \<and> ready w n"
    and "reachable w"
  shows "fst (configure_workload self ev w) = Inr () \<and>
    effects (new_calls w (snd (configure_workload self ev w))) =
      (if plan w \<noteq> services (pebble_layer self w) then
         [Set_status (MaintenanceStatus ''Configuring pod''),
          Add_layer (container_name self) (pebble_layer self w) True,
          Restart (service_name self)] @
         (if leader w
          then map (\<lambda>r. Relation_data_update (rel_id r) ''active'' ''True'')
                 (model_relations w (charm_meta_name self))
          else []) @
         [Set_status ActiveStatus]
       else [Set_status (MaintenanceStatus ''Configuring pod''), Set_status ActiveStatus]) \<and>
    plan (snd (configure_workload self ev w)) =
      (plan w)(service_name self := services (pebble_layer self w) (service_name self)) \<and>
    unit_data (snd (configure_workload self ev w)) =
      (if plan w \<noteq> services (pebble_layer self w) \<and> leader w
       then write_active ''True'' (model_relations w (charm_meta_name self)) (unit_data w)
       else unit_data w)"
proof -
  have r: "\<forall>n\<in>set (required_relations self). ready w n" using assms(1) by blast
  have m: "p ++ services (pebble_layer self w) =
      p(service_name self := services (pebble_layer self w) (service_name self))" for p
    by (simp add: run_simps pebble_layer_def)
  have e: "plan w = services (pebble_layer self w) \<Longrightarrow>
      (plan w)(service_name self := services (pebble_layer self w) (service_name self)) = plan w"
    by (metis fun_upd_triv)
  show ?thesis
    using assms(2) e
    by (simp add: run_simps configure_workload_eq all_ready [OF r] configure_charm_eq new_calls_def m)
qed

theorem configure_workload_apply_restart_publish_witness:
  "effects (calls (snd (configure_workload dummy_charm PebbleReadyEvent
      ((related_world ''True'' ''True'')\<lparr>reachable := True, leader := True\<rparr>)))) =
     [Set_status (MaintenanceStatus ''Configuring pod''),
      Add_layer ''magma-orc8r-dummy'' (pebble_layer dummy_charm fresh_world) True,
      Restart ''magma-orc8r-dummy'',
      Relation_data_update 3 ''active'' ''True'',
      Relation_data_update 4 ''active'' ''True'',
      Set_status ActiveStatus]"
proof -
  let ?w = "(related_world ''True'' ''True'')\<lparr>reachable := True, leader := True\<rparr>"
  have h1: "\<forall>n\<in>set (required_relations dummy_charm). model_relation ?w n \<noteq> None \<and> ready ?w n"
    by (simp add: run_simps fixture_defs fixture_simps ready_def)
  have h2: "reachable ?w" by (simp add: run_simps fixture_defs fixture_simps)
  have c0: "calls ?w = []" by (simp add: run_simps fixture_defs fixture_simps)
  have f: "leader ?w"
    "model_relations (related_world ''True'' ''True'') (charm_meta_name dummy_charm) =
       [requirer_relation 3, requirer_relation 4]"
    "container_name dummy_charm = ''magma-orc8r-dummy''" "service_name dummy_charm = ''magma-orc8r-dummy''"
    by (simp_all add: run_simps fixture_defs fixture_simps)
  from configure_workload_apply_restart_publish [OF h1 h2, of PebbleReadyEvent]
  show ?thesis
    by (simp add: run_simps fixture_simps new_calls_def empty_plan_differs f requirer_relation_def)
qed

text \<open>
  C10, as the claim states it, fails: on an endpoint that holds two relations
  \<open>get_relation\<close> raises a ModelError, which the \<open>except\<close> clause of
  \<open>_relation_active\<close> does not name, and the check raises it.
\<close>

theorem relation_active_raises_counterexample:
  "model_relations crowded_world ''db'' = [remote_relation 2 ''True'', remote_relation 5 ''True''] \<and>
   fst (relation_active ''db'' crowded_world) = Inl ModelError"
  by (simp add: relation_active_eq fixture_defs)

text \<open>
  C10, amended. On an endpoint that holds at most one relation the check
  \<open>_relation_active\<close> does not raise. It returns True exactly when the endpoint holds a
  relation, the relation has a counterpart unit, and the bag of the first unit that
  iterating over the units yields maps "active" to the string "True". No relation, no unit,
  no bag or no "active" key, and any other value give False. The only bag read is the first
  unit's: the calls are \<open>get_relation\<close>, the units, and one read of "active" for that
  unit.
\<close>

theorem relation_active_single:
  assumes "\<not> several w name"
  shows "relation_active name w =
     (Inr (\<exists>r u us bag. model_relations w name = [r] \<and> units r = u # us \<and>
             data r u = Some bag \<and> bag ''active'' = Some ''True''),
      w\<lparr>calls := calls w @ ready_calls w name\<rparr>)"
  using assms
  by (auto simp: relation_active_eq ready_def model_relation_def several_def
      split: option.splits list.splits)

theorem relation_active_single_witness:
  "fst (relation_active ''db'' (related_world ''True'' ''true'')) = Inr False \<and>
   fst (relation_active ''magma-orc8r-whatever'' (related_world ''True'' ''true'')) = Inr True \<and>
   fst (relation_active ''absent'' (related_world ''True'' ''true'')) = Inr False \<and>
   calls (snd (relation_active ''db'' (related_world ''True'' ''true''))) =
     [Get_relation ''db'', Relation_units 2, Relation_data_get 2 ''remote-app/0'' ''active'']"
proof -
  let ?w = "related_world ''True'' ''true''"
  have h: "\<not> several ?w ''db''" "\<not> several ?w ''magma-orc8r-whatever''"
    "\<not> several ?w ''absent''"
    by (simp_all add: fixture_defs)
  from relation_active_single [OF h(1)] relation_active_single [OF h(2)]
    relation_active_single [OF h(3)]
  show ?thesis
    by (simp add: fixture_defs ready_calls_def)
qed

end
